theory Spec2Isabelle
  imports Complex_Main "HOL-Library.AList"
begin

section \<open>The correlation graph of \<open>mrp7pred/feats/_correlation_graph.py\<close>\<close>

text \<open>
  The module keeps \<open>Node\<close> objects that refer to each other through their \<open>edge\<close>
  dictionaries, and one \<open>CorrelationGraph\<close> object with the attributes \<open>nodes\<close>,
  \<open>to_drop\<close> and \<open>num_edges\<close>. \<open>Node\<close> defines neither \<open>__eq__\<close> nor \<open>__hash__\<close>, so
  Python compares and hashes nodes by object identity. The model therefore keeps an
  explicit store: a node is a reference (a natural number), the store maps each
  reference to the object it denotes, and \<open>Node(v)\<close> allocates the next unused reference.
  A dictionary keeps its insertion order, so \<open>edge\<close> is an association list with distinct
  keys. Correlations are modelled as real numbers (no rounding, no NaN): a sum of several
  weights is exact here and rounded to a double in the code. Every instance evaluated
  below has at most one weight per dictionary, where the two agree.

  The model covers the bodies of the methods that the constructor and \<open>prune\<close> run.
  \<open>_remove_node\<close> is never called and is left out, and so are the \<open>print\<close> calls and
  the parameter annotations (\<open>node: Node\<close> inside the body of class \<open>Node\<close>, which an
  interpreter that evaluates annotations at definition time rejects with \<open>NameError\<close>).
\<close>

subsection \<open>Data\<close>

type_synonym ref = nat

record node_obj =
  node_value :: int
  edge :: "(ref \<times> real) list"

type_synonym heap = "ref \<Rightarrow> node_obj"

text \<open>The exceptions the module can raise, one constructor per raising statement.\<close>

datatype pyerror =
    ValueError_not_square
  | ValueError_not_neighbor
  | KeyError
  | RuntimeError_dict_changed_size

text \<open>
  The \<open>n \<times> n\<close> DataFrame of the caller: its \<open>shape\<close> and the positional read
  \<open>iloc[row, col]\<close>, which the constructor only uses inside the shape.
\<close>

record dataframe =
  shape0 :: nat
  shape1 :: nat
  iloc :: "nat \<Rightarrow> nat \<Rightarrow> real"

text \<open>
  The memory the program works on: the DataFrame passed by the caller, the store of
  \<open>Node\<close> objects with its allocation pointer, and the three attributes of the
  \<open>CorrelationGraph\<close> object.
\<close>

record memory =
  corr_matrix :: dataframe
  heap :: heap
  next_ref :: ref
  nodes :: "ref list"
  to_drop :: "int list"
  num_edges :: int

subsection \<open>Class \<open>Node\<close>\<close>

text \<open>\<open>Node(value)\<close>: a new object with an empty \<open>edge\<close> dictionary.\<close>

definition Node_init :: "int \<Rightarrow> memory \<Rightarrow> ref \<times> memory" where
  "Node_init v s =
     (next_ref s,
      s\<lparr>heap := (heap s)(next_ref s := \<lparr>node_value = v, edge = []\<rparr>),
        next_ref := Suc (next_ref s)\<rparr>)"

text \<open>\<open>self.edge[node] = pcc\<close>: only the dictionary of \<open>self\<close> is written.\<close>

definition link :: "ref \<Rightarrow> ref \<Rightarrow> real \<Rightarrow> heap \<Rightarrow> heap" where
  "link self node pcc h =
     h(self := (h self)\<lparr>edge := AList.update node pcc (edge (h self))\<rparr>)"

text \<open>
  Python's \<open>not x\<close> on the result of \<open>dict.get\<close>: true for \<open>None\<close> and for the
  number zero.
\<close>

fun py_not :: "real option \<Rightarrow> bool" where
  "py_not None = True"
| "py_not (Some w) = (w = 0)"

text \<open>
  \<open>unlink\<close>: the test on \<open>self.edge.get(node)\<close>, then \<open>del node.edge[self]\<close>, then
  \<open>del self.edge[node]\<close>; each \<open>del\<close> raises \<open>KeyError\<close> when the key is absent.
\<close>

definition unlink :: "ref \<Rightarrow> ref \<Rightarrow> heap \<Rightarrow> pyerror + heap" where
  "unlink self node h =
     (if py_not (map_of (edge (h self)) node) then Inl ValueError_not_neighbor
      else if map_of (edge (h node)) self = None then Inl KeyError
      else
        let h1 = h(node := (h node)\<lparr>edge := AList.delete self (edge (h node))\<rparr>)
        in if map_of (edge (h1 self)) node = None then Inl KeyError
           else Inr (h1(self := (h1 self)\<lparr>edge := AList.delete node (edge (h1 self))\<rparr>)))"

definition has_leaf_child :: "ref \<Rightarrow> heap \<Rightarrow> bool" where
  "has_leaf_child self h =
     list_ex (\<lambda>neighbor. length (edge (h neighbor)) = 1) (map fst (edge (h self)))"

definition get_overall_weight :: "ref \<Rightarrow> heap \<Rightarrow> real" where
  "get_overall_weight self h = sum_list (map snd (edge (h self)))"

subsection \<open>Class \<open>CorrelationGraph\<close>: construction\<close>

text \<open>
  The body of the inner loop over \<open>col\<close>. The membership test \<open>node_new not in self.nodes\<close>
  compares by identity, that is, by reference.
\<close>

definition init_col :: "ref \<Rightarrow> nat \<Rightarrow> real \<Rightarrow> nat \<Rightarrow> memory \<Rightarrow> memory" where
  "init_col node row threshold col s =
     (let corr = iloc (corr_matrix s) row col in
      if corr \<ge> threshold then
        let (node_new, s1) = Node_init (int col) s;
            s2 = s1\<lparr>heap := link node node_new corr (heap s1)\<rparr>;
            s3 = s2\<lparr>num_edges := num_edges s2 + 1\<rparr>
        in if node_new \<notin> set (nodes s3) then s3\<lparr>nodes := nodes s3 @ [node_new]\<rparr> else s3
      else s)"

text \<open>The body of the outer loop over \<open>row\<close>.\<close>

definition init_row :: "real \<Rightarrow> nat \<Rightarrow> memory \<Rightarrow> memory" where
  "init_row threshold row s =
     (let (node, s1) = Node_init (int row) s;
          s2 = (if node \<notin> set (nodes s1) then s1\<lparr>nodes := nodes s1 @ [node]\<rparr> else s1)
      in fold (init_col node row threshold) [row + 1 ..< shape0 (corr_matrix s2)] s2)"

text \<open>The memory before the constructor runs: the caller's DataFrame and no node.\<close>

definition initial_memory :: "dataframe \<Rightarrow> memory" where
  "initial_memory df =
     \<lparr>corr_matrix = df, heap = (\<lambda>_. \<lparr>node_value = 0, edge = []\<rparr>), next_ref = 0,
      nodes = [], to_drop = [], num_edges = 0\<rparr>"

definition CorrelationGraph_init :: "dataframe \<Rightarrow> real \<Rightarrow> pyerror + memory" where
  "CorrelationGraph_init df threshold =
     (let s = initial_memory df in
      if shape0 (corr_matrix s) \<noteq> shape1 (corr_matrix s) then Inl ValueError_not_square
      else Inr (fold (init_row threshold) [0 ..< shape0 (corr_matrix s)] s))"

subsection \<open>Round 1\<close>

text \<open>
  The loop \<open>for neighbor in node.edge.keys()\<close> of round 1. A dictionary iterator
  remembers the size of the dictionary at its creation (\<open>used\<close>) and raises
  \<open>RuntimeError\<close> at the next step when the size differs. The body only deletes keys, so
  as long as the size is unchanged the keys still to come are those of the start
  (\<open>keys\<close>).
\<close>

fun r1_unlink_loop :: "ref \<Rightarrow> nat \<Rightarrow> ref list \<Rightarrow> heap \<times> int \<Rightarrow> pyerror + heap \<times> int" where
  "r1_unlink_loop node used [] (h, n) =
     (if length (edge (h node)) \<noteq> used then Inl RuntimeError_dict_changed_size
      else Inr (h, n))"
| "r1_unlink_loop node used (neighbor # keys) (h, n) =
     (if length (edge (h node)) \<noteq> used then Inl RuntimeError_dict_changed_size
      else case unlink neighbor node h of
             Inl e \<Rightarrow> Inl e
           | Inr h' \<Rightarrow> r1_unlink_loop node used keys (h', n - 1))"

text \<open>
  The loop \<open>for node in self.nodes\<close> of round 1. A list iterator is an index \<open>i\<close> into
  the live list: it stops when \<open>i\<close> reaches the current length, and
  \<open>self.nodes.remove(node)\<close> removes the first occurrence from that same list. The last
  argument records the nodes the loop has visited; nothing reads it.
\<close>

function r1_loop :: "nat \<Rightarrow> memory \<Rightarrow> ref list \<Rightarrow> pyerror + memory \<times> ref list" where
  "r1_loop i s visited =
     (if i < length (nodes s) then
        let node = nodes s ! i in
        if length (edge (heap s node)) = 0 then
          r1_loop (i + 1) (s\<lparr>nodes := remove1 node (nodes s)\<rparr>) (visited @ [node])
        else if has_leaf_child node (heap s) then
          let s1 = s\<lparr>to_drop := to_drop s @ [node_value (heap s node)]\<rparr> in
          case r1_unlink_loop node (length (edge (heap s1 node)))
                 (map fst (edge (heap s1 node))) (heap s1, num_edges s1) of
            Inl e \<Rightarrow> Inl e
          | Inr (h, n) \<Rightarrow>
              r1_loop (i + 1) (s1\<lparr>heap := h, num_edges := n, nodes := remove1 node (nodes s1)\<rparr>)
                (visited @ [node])
        else r1_loop (i + 1) s (visited @ [node])
      else Inr (s, visited))"
  by pat_completeness auto
termination
  by (relation "measure (\<lambda>(i, s, visited). length (nodes s) - i)")
     (auto simp: length_remove1)

definition remove_nodes_with_leaf_child :: "memory \<Rightarrow> pyerror + memory" where
  "remove_nodes_with_leaf_child s =
     (case r1_loop 0 s [] of Inl e \<Rightarrow> Inl e | Inr (s', visited) \<Rightarrow> Inr s')"

subsection \<open>Round 2\<close>

function r2_loop :: "nat \<Rightarrow> real \<Rightarrow> ref \<Rightarrow> memory \<Rightarrow> real \<times> ref \<times> memory" where
  "r2_loop i max_weight max_weight_node s =
     (if i < length (nodes s) then
        let node = nodes s ! i in
        if length (edge (heap s node)) = 0 then
          r2_loop (i + 1) max_weight max_weight_node (s\<lparr>nodes := remove1 node (nodes s)\<rparr>)
        else
          let sum_weight = sum_list (map snd (edge (heap s node))) in
          if sum_list (map snd (edge (heap s node))) > max_weight
          then r2_loop (i + 1) sum_weight node s
          else r2_loop (i + 1) max_weight max_weight_node s
      else (max_weight, max_weight_node, s))"
  by pat_completeness auto
termination
  by (relation "measure (\<lambda>(i, mw, mwn, s). length (nodes s) - i)")
     (auto simp: length_remove1)

text \<open>
  Round 2 allocates the place holder \<open>Node(-1)\<close>, scans, and appends the value of the
  node it ends with. It has no other statement.
\<close>

definition remove_nodes_in_cycles :: "memory \<Rightarrow> memory" where
  "remove_nodes_in_cycles s =
     (let (place_holder, s0) = Node_init (- 1) s;
          (max_weight, max_weight_node, s1) = r2_loop 0 0 place_holder s0
      in s1\<lparr>to_drop := to_drop s1 @ [node_value (heap s1 max_weight_node)]\<rparr>)"

subsection \<open>The prune loop\<close>

text \<open>
  \<open>while self.num_edges != 0\<close>: round 1, then round 2. The loop may run forever, so the
  result is an option: \<open>None\<close> is "does not return", \<open>Some (Inl e)\<close> an exception,
  \<open>Some (Inr s)\<close> the memory at the normal return.
\<close>

partial_function (option) prune :: "memory \<Rightarrow> (pyerror + memory) option" where
  "prune s =
     (if num_edges s \<noteq> 0 then
        (case remove_nodes_with_leaf_child s of
           Inl e \<Rightarrow> Some (Inl e)
         | Inr s1 \<Rightarrow> prune (remove_nodes_in_cycles s1))
      else Some (Inr s))"

text \<open>
  The memory after at most \<open>k\<close> passes through the body of that loop: the same test and
  the same two calls, stopped after \<open>k\<close> rounds of each. It shows what a run that
  never returns has written so far.
\<close>

fun prune_steps :: "nat \<Rightarrow> memory \<Rightarrow> pyerror + memory" where
  "prune_steps 0 s = Inr s"
| "prune_steps (Suc k) s =
     (if num_edges s \<noteq> 0 then
        (case remove_nodes_with_leaf_child s of
           Inl e \<Rightarrow> Inl e
         | Inr s1 \<Rightarrow> prune_steps k (remove_nodes_in_cycles s1))
      else Inr s)"

subsection \<open>Properties and example inputs\<close>

text \<open>
  Mutual consistency over the nodes \<open>rs\<close>: whenever the dictionary of \<open>a\<close> holds \<open>b\<close>
  with weight \<open>w\<close>, the dictionary of \<open>b\<close> holds \<open>a\<close> with the same weight.
\<close>

definition mutual_consistent :: "ref list \<Rightarrow> heap \<Rightarrow> bool" where
  "mutual_consistent rs h =
     list_all (\<lambda>a. list_all (\<lambda>(b, w). map_of (edge (h b)) a = Some w) (edge (h a))) rs"

text \<open>The feature indices of the nodes in \<open>self.nodes\<close>, in list order.\<close>

definition node_values :: "memory \<Rightarrow> int list" where
  "node_values s = map (\<lambda>r. node_value (heap s r)) (nodes s)"

text \<open>Two features with correlation 0.95, as the caller's \<open>2 \<times> 2\<close> matrix.\<close>

definition example_matrix :: dataframe where
  "example_matrix = \<lparr>shape0 = 2, shape1 = 2, iloc = (\<lambda>i j. if i = j then 1 else 19 / 20)\<rparr>"

text \<open>The memory the constructor leaves for \<open>example_matrix\<close> and threshold 0.9.\<close>

definition example_graph :: memory where
  "example_graph =
     \<lparr>corr_matrix = example_matrix,
      heap = (\<lambda>_. \<lparr>node_value = 0, edge = []\<rparr>)
        (0 := \<lparr>node_value = 0, edge = [(1, 19 / 20)]\<rparr>,
         1 := \<lparr>node_value = 1, edge = []\<rparr>,
         2 := \<lparr>node_value = 1, edge = []\<rparr>),
      next_ref = 3, nodes = [0, 1, 2], to_drop = [], num_edges = 1\<rparr>"

text \<open>Two features with correlation 0.1: no pair reaches the threshold 0.9.\<close>

definition uncorrelated_matrix :: dataframe where
  "uncorrelated_matrix =
     \<lparr>shape0 = 2, shape1 = 2, iloc = (\<lambda>i j. if i = j then 1 else 1 / 10)\<rparr>"

text \<open>
  Two nodes \<open>0\<close> and \<open>1\<close> linked in both directions with weight 0, as for a matrix entry
  0 and threshold 0.
\<close>

definition zero_weight_pair :: heap where
  "zero_weight_pair =
     link 1 0 0 (link 0 1 0
       ((\<lambda>_. \<lparr>node_value = 0, edge = []\<rparr>)(1 := \<lparr>node_value = 1, edge = []\<rparr>)))"

text \<open>Two features with correlation 0, for the threshold 0.\<close>

definition zero_matrix :: dataframe where
  "zero_matrix = \<lparr>shape0 = 2, shape1 = 2, iloc = (\<lambda>i j. if i = j then 1 else 0)\<rparr>"

text \<open>The memory the constructor leaves for \<open>zero_matrix\<close> and threshold 0.\<close>

definition zero_graph :: memory where
  "zero_graph =
     \<lparr>corr_matrix = zero_matrix,
      heap = (\<lambda>_. \<lparr>node_value = 0, edge = []\<rparr>)
        (0 := \<lparr>node_value = 0, edge = [(1, 0)]\<rparr>,
         1 := \<lparr>node_value = 1, edge = []\<rparr>,
         2 := \<lparr>node_value = 1, edge = []\<rparr>),
      next_ref = 3, nodes = [0, 1, 2], to_drop = [], num_edges = 1\<rparr>"

text \<open>The memory the constructor leaves for \<open>uncorrelated_matrix\<close> and threshold 0.9.\<close>

definition uncorrelated_graph :: memory where
  "uncorrelated_graph =
     \<lparr>corr_matrix = uncorrelated_matrix,
      heap = (\<lambda>_. \<lparr>node_value = 0, edge = []\<rparr>)
        (0 := \<lparr>node_value = 0, edge = []\<rparr>, 1 := \<lparr>node_value = 1, edge = []\<rparr>),
      next_ref = 2, nodes = [0, 1], to_drop = [], num_edges = 0\<rparr>"

text \<open>
  A memory the constructor does not produce: the two nodes of \<open>example_matrix\<close> with
  the edge entered in both dictionaries.
\<close>

definition mutual_pair_graph :: memory where
  "mutual_pair_graph =
     \<lparr>corr_matrix = example_matrix,
      heap = (\<lambda>_. \<lparr>node_value = 0, edge = []\<rparr>)
        (0 := \<lparr>node_value = 0, edge = [(1, 19 / 20)]\<rparr>,
         1 := \<lparr>node_value = 1, edge = [(0, 19 / 20)]\<rparr>),
      next_ref = 2, nodes = [0, 1], to_drop = [], num_edges = 1\<rparr>"

text \<open>
  Invariants of the store used in the proofs below. \<open>leafless\<close>: every key of every
  \<open>edge\<close> dictionary denotes a node whose own dictionary is empty. \<open>targets_empty\<close> adds
  that these keys are allocated; \<open>targets_fresh node\<close> adds that \<open>node\<close> is allocated
  and is nobody's key.
\<close>

definition leafless :: "heap \<Rightarrow> bool" where
  "leafless h \<longleftrightarrow> (\<forall>r b. b \<in> fst ` set (edge (h r)) \<longrightarrow> edge (h b) = [])"

definition targets_empty :: "memory \<Rightarrow> bool" where
  "targets_empty s \<longleftrightarrow>
     (\<forall>r b. b \<in> fst ` set (edge (heap s r)) \<longrightarrow> edge (heap s b) = [] \<and> b < next_ref s)"

definition targets_fresh :: "ref \<Rightarrow> memory \<Rightarrow> bool" where
  "targets_fresh node s \<longleftrightarrow>
     node < next_ref s \<and>
     (\<forall>r b. b \<in> fst ` set (edge (heap s r)) \<longrightarrow>
        edge (heap s b) = [] \<and> b < next_ref s \<and> b \<noteq> node)"

declare r1_loop.simps [simp del] r2_loop.simps [simp del]

section \<open>Class \<open>Node\<close>\<close>

lemma delete_shorter:
  assumes "k \<in> fst ` set xs"
  shows "length (AList.delete k xs) < length xs"
proof -
  from assms obtain v where "(k, v) \<in> set xs" by auto
  then have "length (filter (\<lambda>(k', _). k \<noteq> k') xs) < length xs"
    by (rule length_filter_less) simp
  then show ?thesis by (simp add: AList.delete_eq)
qed

lemma map_of_delete_self: "map_of (AList.delete k xs) k = None"
  by (simp add: AList.delete_eq map_of_eq_None_iff image_iff)

lemma unlink_Inr_shrinks:
  assumes "unlink neighbor node h = Inr h'" and "neighbor \<in> fst ` set (edge (h node))"
  shows "length (edge (h' node)) < length (edge (h node))"
proof (cases "neighbor = node")
  case True
  with assms(1) show ?thesis
    by (simp add: unlink_def Let_def map_of_delete_self split: if_splits)
next
  case False
  with assms(1) have "edge (h' node) = AList.delete neighbor (edge (h node))"
    by (auto simp: unlink_def Let_def split: if_splits)
  with assms(2) show ?thesis by (simp add: delete_shorter)
qed

text \<open>
  \<open>unlink\<close> raises its \<open>ValueError\<close> exactly when \<open>dict.get\<close> gives \<open>None\<close> or zero.
\<close>

lemma unlink_ValueError_iff:
  "unlink self node h = Inl ValueError_not_neighbor \<longleftrightarrow> py_not (map_of (edge (h self)) node)"
  by (simp add: unlink_def Let_def)

text \<open>
  With a non-zero weight, the edge entered on both sides and two different nodes,
  \<open>unlink\<close> returns and the edge is gone from both dictionaries.
\<close>

lemma unlink_mutual_edge:
  assumes "map_of (edge (h self)) node = Some w" and "w \<noteq> 0"
    and "map_of (edge (h node)) self \<noteq> None" and "self \<noteq> node"
  shows "\<exists>h'. unlink self node h = Inr h' \<and>
           map_of (edge (h' self)) node = None \<and> map_of (edge (h' node)) self = None"
  using assms by (simp add: unlink_def Let_def map_of_delete_self)

text \<open>
  C9. \<open>unlink(other)\<close> raises if and only if \<open>other\<close> is not a neighbour, and succeeds
  for a neighbour whatever the weight of the edge. The code raises for a neighbour of
  weight zero: in \<open>zero_weight_pair\<close> each node is in the dictionary of the other, and
  \<open>unlink\<close> raises the \<open>ValueError\<close> of a missing neighbour.
\<close>

theorem unlink_rejects_zero_weight_neighbor:
  "map_of (edge (zero_weight_pair 0)) 1 = Some 0 \<and>
   map_of (edge (zero_weight_pair 1)) 0 = Some 0 \<and>
   unlink 0 1 zero_weight_pair = Inl ValueError_not_neighbor"
  by (simp add: zero_weight_pair_def link_def unlink_def)

section \<open>Construction\<close>

lemma init_col_corr_matrix: "corr_matrix (init_col node row t col s) = corr_matrix s"
  by (simp add: init_col_def Node_init_def Let_def)

lemma init_col_to_drop: "to_drop (init_col node row t col s) = to_drop s"
  by (simp add: init_col_def Node_init_def Let_def)

lemma init_col_num_edges:
  "num_edges (init_col node row t col s) =
     num_edges s + (if t \<le> iloc (corr_matrix s) row col then 1 else 0)"
  by (simp add: init_col_def Node_init_def Let_def)

lemma fold_init_col_corr_matrix:
  "corr_matrix (fold (init_col node row t) cols s) = corr_matrix s"
  by (induction cols arbitrary: s) (simp_all add: init_col_corr_matrix)

lemma fold_init_col_to_drop:
  "to_drop (fold (init_col node row t) cols s) = to_drop s"
  by (induction cols arbitrary: s) (simp_all add: init_col_to_drop)

lemma fold_init_col_num_edges:
  "num_edges (fold (init_col node row t) cols s) =
     num_edges s + int (length (filter (\<lambda>col. t \<le> iloc (corr_matrix s) row col) cols))"
  by (induction cols arbitrary: s) (simp_all add: init_col_corr_matrix init_col_num_edges)

lemma init_row_corr_matrix: "corr_matrix (init_row t row s) = corr_matrix s"
  by (simp add: init_row_def Node_init_def Let_def fold_init_col_corr_matrix)

lemma init_row_to_drop: "to_drop (init_row t row s) = to_drop s"
  by (simp add: init_row_def Node_init_def Let_def fold_init_col_to_drop)

lemma init_row_num_edges:
  "num_edges (init_row t row s) =
     num_edges s + int (length (filter (\<lambda>col. t \<le> iloc (corr_matrix s) row col)
                                  [row + 1 ..< shape0 (corr_matrix s)]))"
  by (simp add: init_row_def Node_init_def Let_def fold_init_col_num_edges)

lemma fold_init_row_corr_matrix:
  "corr_matrix (fold (init_row t) rows s) = corr_matrix s"
  by (induction rows arbitrary: s) (simp_all add: init_row_corr_matrix)

lemma fold_init_row_to_drop:
  "to_drop (fold (init_row t) rows s) = to_drop s"
  by (induction rows arbitrary: s) (simp_all add: init_row_to_drop)

lemma fold_init_row_num_edges:
  "num_edges (fold (init_row t) rows s) =
     num_edges s +
     (\<Sum>row\<leftarrow>rows. int (length (filter (\<lambda>col. t \<le> iloc (corr_matrix s) row col)
                                [row + 1 ..< shape0 (corr_matrix s)])))"
  by (induction rows arbitrary: s) (simp_all add: init_row_corr_matrix init_row_num_edges)

lemma CorrelationGraph_init_Inr:
  "CorrelationGraph_init df threshold = Inr g \<longleftrightarrow>
     shape0 df = shape1 df \<and> g = fold (init_row threshold) [0 ..< shape0 df] (initial_memory df)"
  by (auto simp: CorrelationGraph_init_def initial_memory_def Let_def)

text \<open>The pairs above the diagonal, counted row by row.\<close>

lemma card_pairs_above:
  "card {(i, j). i < j \<and> j < n \<and> P i j} =
     (\<Sum>i\<leftarrow>[0 ..< n]. length (filter (P i) [i + 1 ..< n]))"
proof -
  have "{(i, j). i < j \<and> j < n \<and> P i j} = (SIGMA i:{0 ..< n}. {j \<in> {i + 1 ..< n}. P i j})"
    by auto
  then have "card {(i, j). i < j \<and> j < n \<and> P i j} =
      (\<Sum>i\<in>{0 ..< n}. card {j \<in> {i + 1 ..< n}. P i j})"
    by (simp add: card_SigmaI)
  also have "\<dots> = (\<Sum>i\<in>{0 ..< n}. length (filter (P i) [i + 1 ..< n]))"
  proof (rule sum.cong)
    fix i
    have "{j \<in> {i + 1 ..< n}. P i j} = {x. P i x} \<inter> set [i + 1 ..< n]" by auto
    then show "card {j \<in> {i + 1 ..< n}. P i j} = length (filter (P i) [i + 1 ..< n])"
      by (simp add: distinct_length_filter)
  qed simp
  also have "\<dots> = (\<Sum>i\<leftarrow>[0 ..< n]. length (filter (P i) [i + 1 ..< n]))"
    by (simp add: interv_sum_list_conv_sum_set_nat)
  finally show ?thesis .
qed

lemma example_graph_built: "CorrelationGraph_init example_matrix (9 / 10) = Inr example_graph"
proof -
  have "fold (init_row (9 / 10)) [0 ..< 2] (initial_memory example_matrix) = example_graph"
    apply (simp add: initial_memory_def example_matrix_def init_row_def init_col_def
        Node_init_def link_def example_graph_def upt_conv_Cons Let_def)
    apply (rule ext)
    apply simp
    done
  then show ?thesis
    by (simp add: CorrelationGraph_init_Inr) (simp add: example_matrix_def)
qed

lemma uncorrelated_graph_built:
  "CorrelationGraph_init uncorrelated_matrix (9 / 10) = Inr uncorrelated_graph"
proof -
  have "fold (init_row (9 / 10)) [0 ..< 2] (initial_memory uncorrelated_matrix) = uncorrelated_graph"
    by (simp add: initial_memory_def uncorrelated_matrix_def init_row_def init_col_def
        Node_init_def link_def uncorrelated_graph_def upt_conv_Cons Let_def)
  then show ?thesis
    by (simp add: CorrelationGraph_init_Inr) (simp add: uncorrelated_matrix_def)
qed

lemma zero_graph_built: "CorrelationGraph_init zero_matrix 0 = Inr zero_graph"
proof -
  have "fold (init_row 0) [0 ..< 2] (initial_memory zero_matrix) = zero_graph"
    apply (simp add: initial_memory_def zero_matrix_def init_row_def init_col_def
        Node_init_def link_def zero_graph_def upt_conv_Cons Let_def)
    apply (rule ext)
    apply simp
    done
  then show ?thesis
    by (simp add: CorrelationGraph_init_Inr) (simp add: zero_matrix_def)
qed

lemma init_col_targets_fresh:
  assumes inv: "targets_fresh node s"
  shows "targets_fresh node (init_col node row t col s)"
proof (cases "t \<le> iloc (corr_matrix s) row col")
  case False
  with inv show ?thesis by (simp add: init_col_def)
next
  case True
  define new where "new = next_ref s"
  define h' where "h' = link node new (iloc (corr_matrix s) row col)
                          ((heap s)(new := \<lparr>node_value = int col, edge = []\<rparr>))"
  from True have s': "heap (init_col node row t col s) = h'"
    "next_ref (init_col node row t col s) = Suc new"
    by (simp_all add: init_col_def Node_init_def Let_def h'_def new_def)
  from inv have lt: "node < new" unfolding targets_fresh_def new_def by blast
  from inv have old: "\<And>r b. b \<in> fst ` set (edge (heap s r)) \<Longrightarrow>
      edge (heap s b) = [] \<and> b < new \<and> b \<noteq> node"
    unfolding targets_fresh_def new_def by blast
  from lt have keys: "\<And>r. fst ` set (edge (h' r)) =
      (if r = node then insert new (fst ` set (edge (heap s node)))
       else if r = new then {} else fst ` set (edge (heap s r)))"
    by (simp add: h'_def link_def dom_update)
  have other: "\<And>b. b \<noteq> node \<Longrightarrow> edge (h' b) = (if b = new then [] else edge (heap s b))"
    by (simp add: h'_def link_def)
  have main: "edge (h' b) = [] \<and> b < Suc new \<and> b \<noteq> node"
    if a: "b \<in> fst ` set (edge (h' r))" for r b
  proof -
    from a have "b = new \<or> b \<in> fst ` set (edge (heap s r))"
      unfolding keys by (cases "r = node"; cases "r = new") auto
    then show ?thesis
    proof
      assume "b = new"
      with lt show ?thesis by (simp add: other)
    next
      assume "b \<in> fst ` set (edge (heap s r))"
      from old [OF this] have "edge (heap s b) = []" "b < new" "b \<noteq> node" by blast+
      then show ?thesis by (simp add: other)
    qed
  qed
  from lt have "node < Suc new" by simp
  with main show ?thesis unfolding targets_fresh_def s' by blast
qed

lemma fold_init_col_targets_fresh:
  "targets_fresh node s \<Longrightarrow> targets_fresh node (fold (init_col node row t) cols s)"
  by (induction cols arbitrary: s) (simp_all add: init_col_targets_fresh)

lemma Node_init_targets_fresh:
  assumes inv: "targets_empty s"
    and h: "heap s' = (heap s)(next_ref s := \<lparr>node_value = v, edge = []\<rparr>)"
    and n: "next_ref s' = Suc (next_ref s)"
  shows "targets_fresh (next_ref s) s'"
proof -
  from inv have old: "\<And>r b. b \<in> fst ` set (edge (heap s r)) \<Longrightarrow>
      edge (heap s b) = [] \<and> b < next_ref s"
    unfolding targets_empty_def by blast
  have main: "edge (heap s' b) = [] \<and> b < next_ref s' \<and> b \<noteq> next_ref s"
    if a: "b \<in> fst ` set (edge (heap s' r))" for r b
  proof -
    from a have "b \<in> fst ` set (edge (heap s r))"
      unfolding h by (cases "r = next_ref s") simp_all
    from old [OF this] have "edge (heap s b) = []" "b < next_ref s" by blast+
    then show ?thesis unfolding h n by simp
  qed
  have "next_ref s < next_ref s'" unfolding n by simp
  with main show ?thesis unfolding targets_fresh_def by blast
qed

lemma init_row_targets_empty:
  assumes "targets_empty s"
  shows "targets_empty (init_row t row s)"
proof -
  define s2 where "s2 = (let (node, s1) = Node_init (int row) s in
      if node \<notin> set (nodes s1) then s1\<lparr>nodes := nodes s1 @ [node]\<rparr> else s1)"
  have "heap s2 = (heap s)(next_ref s := \<lparr>node_value = int row, edge = []\<rparr>)"
    and "next_ref s2 = Suc (next_ref s)"
    by (simp_all add: s2_def Node_init_def)
  with assms have "targets_fresh (next_ref s) s2"
    by (rule Node_init_targets_fresh)
  then have "targets_fresh (next_ref s)
      (fold (init_col (next_ref s) row t) [row + 1 ..< shape0 (corr_matrix s2)] s2)"
    by (rule fold_init_col_targets_fresh)
  moreover have "init_row t row s =
      fold (init_col (next_ref s) row t) [row + 1 ..< shape0 (corr_matrix s2)] s2"
    by (simp add: init_row_def s2_def Node_init_def Let_def)
  ultimately have "targets_fresh (next_ref s) (init_row t row s)" by simp
  then show ?thesis unfolding targets_fresh_def targets_empty_def by blast
qed

lemma fold_init_row_targets_empty:
  "targets_empty s \<Longrightarrow> targets_empty (fold (init_row t) rows s)"
  by (induction rows arbitrary: s) (simp_all add: init_row_targets_empty)

lemma built_graph_leafless:
  assumes "CorrelationGraph_init df threshold = Inr g"
  shows "leafless (heap g)"
proof -
  from assms have g: "g = fold (init_row threshold) [0 ..< shape0 df] (initial_memory df)"
    by (simp add: CorrelationGraph_init_Inr)
  have "targets_empty (initial_memory df)"
    by (simp add: targets_empty_def initial_memory_def)
  then have "targets_empty g"
    unfolding g by (rule fold_init_row_targets_empty)
  then show ?thesis unfolding targets_empty_def leafless_def by blast
qed

lemma built_graph_to_drop:
  assumes "CorrelationGraph_init df threshold = Inr g"
  shows "to_drop g = []"
proof -
  from assms have g: "g = fold (init_row threshold) [0 ..< shape0 df] (initial_memory df)"
    by (simp add: CorrelationGraph_init_Inr)
  show ?thesis unfolding g by (simp add: fold_init_row_to_drop initial_memory_def)
qed

lemma built_graph_corr_matrix:
  assumes "CorrelationGraph_init df threshold = Inr g"
  shows "corr_matrix g = df"
proof -
  from assms have g: "g = fold (init_row threshold) [0 ..< shape0 df] (initial_memory df)"
    by (simp add: CorrelationGraph_init_Inr)
  show ?thesis unfolding g by (simp add: fold_init_row_corr_matrix initial_memory_def)
qed

text \<open>
  C5. For every square matrix and threshold, \<open>num_edges\<close> of the freshly built graph is
  the number of pairs \<open>(i, j)\<close> with \<open>i < j\<close> whose entry at \<open>(i, j)\<close> is at least the
  threshold.
\<close>

theorem edge_count_of_built_graph:
  assumes "CorrelationGraph_init df threshold = Inr g"
  shows "num_edges g = int (card {(i, j). i < j \<and> j < shape0 df \<and> threshold \<le> iloc df i j})"
proof -
  from assms have g: "g = fold (init_row threshold) [0 ..< shape0 df] (initial_memory df)"
    by (simp add: CorrelationGraph_init_Inr)
  have "num_edges g =
      (\<Sum>row\<leftarrow>[0 ..< shape0 df]. int (length (filter (\<lambda>col. threshold \<le> iloc df row col)
                                             [row + 1 ..< shape0 df])))"
    unfolding g fold_init_row_num_edges by (simp add: initial_memory_def)
  also have "\<dots> =
      int (\<Sum>row\<leftarrow>[0 ..< shape0 df]. length (filter (\<lambda>col. threshold \<le> iloc df row col)
                                             [row + 1 ..< shape0 df]))"
    by (simp add: sum_list_of_nat [symmetric] comp_def del: upt.simps)
  finally show ?thesis by (simp only: card_pairs_above)
qed

theorem edge_count_of_built_graph_witness:
  "CorrelationGraph_init example_matrix (9 / 10) = Inr example_graph \<and>
   num_edges example_graph =
     int (card {(i, j). i < j \<and> j < shape0 example_matrix \<and> 9 / 10 \<le> iloc example_matrix i j})"
  using edge_count_of_built_graph [OF example_graph_built] example_graph_built by blast


text \<open>
  C4. After construction from an \<open>n \<times> n\<close> matrix every feature index \<open>0..n-1\<close> is
  the value of exactly one node. For \<open>example_matrix\<close> the constructor leaves three
  nodes, two of them with value 1: the test \<open>node not in self.nodes\<close> compares objects,
  and \<open>Node(col)\<close> and \<open>Node(row)\<close> are new objects each time.
\<close>

theorem built_node_values_repeat:
  "CorrelationGraph_init example_matrix (9 / 10) = Inr example_graph \<and>
   node_values example_graph = [0, 1, 1] \<and> \<not> distinct (node_values example_graph)"
  by (simp add: example_graph_built) (simp add: node_values_def example_graph_def)

text \<open>
  C3. Mutual consistency is established by \<open>link\<close> and kept by every operation: if the
  dictionary of \<open>A\<close> holds \<open>B\<close> with weight \<open>w\<close>, the dictionary of \<open>B\<close> holds \<open>A\<close> with
  \<open>w\<close>. \<open>link\<close> writes one dictionary only and the constructor calls it once per pair:
  after one \<open>link\<close>, and in the graph built from \<open>example_matrix\<close>, node 0 holds node 1
  and node 1 does not hold node 0.
\<close>

theorem link_is_one_sided:
  "\<not> mutual_consistent [0, 1] (link 0 1 (19 / 20) (heap (initial_memory example_matrix))) \<and>
   CorrelationGraph_init example_matrix (9 / 10) = Inr example_graph \<and>
   map_of (edge (heap example_graph 0)) 1 = Some (19 / 20) \<and>
   map_of (edge (heap example_graph 1)) 0 = None \<and>
   \<not> mutual_consistent (nodes example_graph) (heap example_graph)"
  by (simp add: example_graph_built)
     (simp add: mutual_consistent_def link_def initial_memory_def example_graph_def)

section \<open>The two rounds\<close>

lemma leafless_no_leaf_child:
  assumes "leafless h"
  shows "\<not> has_leaf_child r h"
proof
  assume "has_leaf_child r h"
  then obtain b where b: "b \<in> fst ` set (edge (h r))" and one: "length (edge (h b)) = 1"
    unfolding has_leaf_child_def list_ex_iff by auto
  from assms b have "edge (h b) = []" unfolding leafless_def by blast
  with one show False by simp
qed

lemma leafless_alloc:
  assumes "leafless h"
  shows "leafless (h(r := \<lparr>node_value = v, edge = []\<rparr>))"
proof -
  have "edge ((h(r := \<lparr>node_value = v, edge = []\<rparr>)) b) = []"
    if a: "b \<in> fst ` set (edge ((h(r := \<lparr>node_value = v, edge = []\<rparr>)) r'))" for r' b
  proof -
    from a have "b \<in> fst ` set (edge (h r'))"
      by (cases "r' = r") simp_all
    with assms have "edge (h b) = []" unfolding leafless_def by blast
    then show ?thesis by simp
  qed
  then show ?thesis unfolding leafless_def by blast
qed


lemma r1_unlink_loop_changed:
  "length (edge (h node)) \<noteq> used \<Longrightarrow>
     r1_unlink_loop node used keys (h, n) = Inl RuntimeError_dict_changed_size"
  by (cases keys) simp_all

text \<open>
  The unlink loop of round 1 never completes on a non-empty dictionary: the first call of
  \<open>unlink\<close> raises, or it shrinks the dictionary under iteration and the iterator
  raises at its next step.
\<close>

lemma r1_unlink_loop_raises:
  assumes "edge (h node) \<noteq> []"
  shows "\<exists>e. r1_unlink_loop node (length (edge (h node))) (map fst (edge (h node))) (h, n) = Inl e"
proof -
  from assms obtain neighbor w rest where e: "edge (h node) = (neighbor, w) # rest"
    by (cases "edge (h node)") auto
  show ?thesis
  proof (cases "unlink neighbor node h")
    case (Inl err)
    then show ?thesis by (simp add: e)
  next
    case (Inr h')
    have "neighbor \<in> fst ` set (edge (h node))" by (simp add: e)
    from unlink_Inr_shrinks [OF Inr this]
    have "length (edge (h' node)) \<noteq> length (edge (h node))" by simp
    then have "r1_unlink_loop node (length (edge (h node))) (map fst rest) (h', n - 1)
                 = Inl RuntimeError_dict_changed_size"
      by (rule r1_unlink_loop_changed)
    with Inr show ?thesis by (simp add: e)
  qed
qed

text \<open>
  A pass of round 1 that returns has only removed nodes from \<open>self.nodes\<close>.
\<close>

lemma r1_loop_frame:
  "r1_loop i s visited = Inr (s', visited') \<Longrightarrow>
     heap s' = heap s \<and> num_edges s' = num_edges s \<and> to_drop s' = to_drop s \<and>
     corr_matrix s' = corr_matrix s \<and> next_ref s' = next_ref s \<and>
     set (nodes s') \<subseteq> set (nodes s)"
proof (induction i s visited rule: r1_loop.induct)
  case (1 i s visited)
  show ?case
  proof (cases "i < length (nodes s)")
    case False
    with "1.prems" show ?thesis by (simp add: r1_loop.simps)
  next
    case inb: True
    define node where "node = nodes s ! i"
    show ?thesis
    proof (cases "length (edge (heap s node)) = 0")
      case True
      with inb "1.prems"
      have "r1_loop (i + 1) (s\<lparr>nodes := remove1 node (nodes s)\<rparr>) (visited @ [node])
              = Inr (s', visited')"
        by (simp add: r1_loop.simps [of i] node_def Let_def)
      from "1.IH"(1) [OF inb node_def True this] show ?thesis
        using set_remove1_subset [of node "nodes s"] by auto
    next
      case ne: False
      show ?thesis
      proof (cases "has_leaf_child node (heap s)")
        case True
        from ne have "edge (heap s node) \<noteq> []" by simp
        from r1_unlink_loop_raises [of "heap s" node "num_edges s", OF this] obtain e where
          "r1_unlink_loop node (length (edge (heap s node))) (map fst (edge (heap s node)))
             (heap s, num_edges s) = Inl e" by blast
        with inb ne True "1.prems" show ?thesis
          by (simp add: r1_loop.simps [of i] node_def Let_def)
      next
        case False
        with inb ne "1.prems"
        have "r1_loop (i + 1) s (visited @ [node]) = Inr (s', visited')"
          by (simp add: r1_loop.simps [of i] node_def Let_def)
        from "1.IH"(3) [OF inb node_def ne False this] show ?thesis .
      qed
    qed
  qed
qed

lemma remove_nodes_with_leaf_child_frame:
  assumes "remove_nodes_with_leaf_child s = Inr s'"
  shows "heap s' = heap s \<and> num_edges s' = num_edges s \<and> to_drop s' = to_drop s \<and>
     corr_matrix s' = corr_matrix s \<and> next_ref s' = next_ref s \<and>
     set (nodes s') \<subseteq> set (nodes s)"
proof -
  from assms obtain visited' where "r1_loop 0 s [] = Inr (s', visited')"
    by (auto simp: remove_nodes_with_leaf_child_def split: sum.splits)
  then show ?thesis by (rule r1_loop_frame)
qed

lemma r1_loop_returns:
  "leafless (heap s) \<Longrightarrow> \<exists>s' visited'. r1_loop i s visited = Inr (s', visited')"
proof (induction i s visited rule: r1_loop.induct)
  case (1 i s visited)
  show ?case
  proof (cases "i < length (nodes s)")
    case False
    then show ?thesis by (simp add: r1_loop.simps)
  next
    case inb: True
    define node where "node = nodes s ! i"
    show ?thesis
    proof (cases "length (edge (heap s node)) = 0")
      case True
      from "1.prems" have "leafless (heap (s\<lparr>nodes := remove1 node (nodes s)\<rparr>))" by simp
      from "1.IH"(1) [OF inb node_def True this] inb True show ?thesis
        by (simp add: r1_loop.simps [of i] node_def Let_def)
    next
      case ne: False
      from "1.prems" have nl: "\<not> has_leaf_child node (heap s)"
        by (rule leafless_no_leaf_child)
      from "1.IH"(3) [OF inb node_def ne nl "1.prems"] inb ne nl show ?thesis
        by (simp add: r1_loop.simps [of i] node_def Let_def)
    qed
  qed
qed

lemma remove_nodes_with_leaf_child_returns:
  assumes "leafless (heap s)"
  shows "\<exists>s'. remove_nodes_with_leaf_child s = Inr s'"
proof -
  from r1_loop_returns [OF assms] obtain s' visited' where "r1_loop 0 s [] = Inr (s', visited')"
    by blast
  then show ?thesis by (simp add: remove_nodes_with_leaf_child_def)
qed

text \<open>The scan of round 2 only removes nodes from \<open>self.nodes\<close>.\<close>

lemma r2_loop_frame:
  "r2_loop i mw mwn s = (mw', mwn', s') \<Longrightarrow>
     heap s' = heap s \<and> num_edges s' = num_edges s \<and> to_drop s' = to_drop s \<and>
     corr_matrix s' = corr_matrix s \<and> next_ref s' = next_ref s \<and>
     set (nodes s') \<subseteq> set (nodes s)"
proof (induction i mw mwn s rule: r2_loop.induct)
  case (1 i mw mwn s)
  show ?case
  proof (cases "i < length (nodes s)")
    case False
    with "1.prems" show ?thesis by (simp add: r2_loop.simps)
  next
    case inb: True
    define node where "node = nodes s ! i"
    show ?thesis
    proof (cases "length (edge (heap s node)) = 0")
      case True
      with inb "1.prems"
      have "r2_loop (i + 1) mw mwn (s\<lparr>nodes := remove1 node (nodes s)\<rparr>) = (mw', mwn', s')"
        by (simp add: r2_loop.simps [of i] node_def Let_def)
      from "1.IH"(1) [OF inb node_def True this] show ?thesis
        using set_remove1_subset [of node "nodes s"] by auto
    next
      case ne: False
      define sum_weight where "sum_weight = sum_list (map snd (edge (heap s node)))"
      show ?thesis
      proof (cases "sum_list (map snd (edge (heap s node))) > mw")
        case True
        with inb ne "1.prems"
        have "r2_loop (i + 1) sum_weight node s = (mw', mwn', s')"
          by (simp add: r2_loop.simps [of i] node_def sum_weight_def Let_def)
        from "1.IH"(2) [OF inb node_def ne sum_weight_def True this] show ?thesis .
      next
        case False
        with inb ne "1.prems"
        have "r2_loop (i + 1) mw mwn s = (mw', mwn', s')"
          by (simp add: r2_loop.simps [of i] node_def Let_def)
        from "1.IH"(3) [OF inb node_def ne sum_weight_def False this] show ?thesis .
      qed
    qed
  qed
qed

text \<open>
  Round 2 as a whole: one more object in the store (the place holder), one more entry in
  \<open>to_drop\<close>, possibly fewer entries in \<open>self.nodes\<close>, and nothing else.
\<close>

lemma remove_nodes_in_cycles_frame:
  "heap (remove_nodes_in_cycles s) = (heap s)(next_ref s := \<lparr>node_value = - 1, edge = []\<rparr>) \<and>
   num_edges (remove_nodes_in_cycles s) = num_edges s \<and>
   corr_matrix (remove_nodes_in_cycles s) = corr_matrix s \<and>
   length (to_drop (remove_nodes_in_cycles s)) = Suc (length (to_drop s)) \<and>
   set (nodes (remove_nodes_in_cycles s)) \<subseteq> set (nodes s)"
proof -
  obtain mw mwn s1 where r: "r2_loop 0 0 (next_ref s) (snd (Node_init (- 1) s)) = (mw, mwn, s1)"
    by (metis prod_cases3)
  from r2_loop_frame [OF r]
  have "heap s1 = (heap s)(next_ref s := \<lparr>node_value = - 1, edge = []\<rparr>)"
    and "num_edges s1 = num_edges s" and "corr_matrix s1 = corr_matrix s"
    and "to_drop s1 = to_drop s" and "set (nodes s1) \<subseteq> set (nodes s)"
    by (simp_all add: Node_init_def)
  with r show ?thesis
    by (simp add: remove_nodes_in_cycles_def Node_init_def)
qed

lemma remove_nodes_in_cycles_leafless:
  "leafless (heap s) \<Longrightarrow> leafless (heap (remove_nodes_in_cycles s))"
  by (simp add: remove_nodes_in_cycles_frame leafless_alloc)

lemma example_round1:
  "r1_loop 0 example_graph [] = Inr (example_graph\<lparr>nodes := [0, 2]\<rparr>, [0, 1])"
  by (simp add: r1_loop.simps example_graph_def has_leaf_child_def)

lemma example_round2:
  "remove_nodes_in_cycles (example_graph\<lparr>nodes := [0, 2]\<rparr>) =
     example_graph\<lparr>heap := (heap example_graph)(3 := \<lparr>node_value = - 1, edge = []\<rparr>),
                   next_ref := 4, nodes := [0], to_drop := [0]\<rparr>"
  by (simp add: remove_nodes_in_cycles_def Node_init_def r2_loop.simps example_graph_def)

lemma mutual_pair_round1:
  "remove_nodes_with_leaf_child mutual_pair_graph = Inl RuntimeError_dict_changed_size"
  by (simp add: remove_nodes_with_leaf_child_def r1_loop.simps mutual_pair_graph_def
      has_leaf_child_def unlink_def AList.delete_eq Let_def)

lemma uncorrelated_round1:
  "remove_nodes_with_leaf_child uncorrelated_graph = Inr (uncorrelated_graph\<lparr>nodes := [1]\<rparr>)"
  by (simp add: remove_nodes_with_leaf_child_def r1_loop.simps uncorrelated_graph_def)

text \<open>
  C7. A pass of round 1 works on a snapshot of the node set: every node present at its
  start is visited, whatever the pass removes. The loop iterates the live list by index.
  On \<open>example_graph\<close> the pass starts with the nodes 0, 1, 2, removes node 1 at index 1,
  and stops at index 2: node 2 is still in the list and was not visited.
\<close>

theorem round1_skips_nodes:
  "nodes example_graph = [0, 1, 2] \<and>
   r1_loop 0 example_graph [] = Inr (example_graph\<lparr>nodes := [0, 2]\<rparr>, [0, 1])"
  by (simp add: example_round1) (simp add: example_graph_def)

text \<open>
  C2. Round 2 on a graph with \<open>num_edges > 0\<close> selects the node of greatest total
  weight, appends its value to \<open>to_drop\<close>, unlinks it from every neighbour with
  \<open>num_edges\<close> decremented per edge, and removes it from the node set. The code appends
  the value and stops there. After round 1 on \<open>example_graph\<close>, round 2 appends 0;
  \<open>num_edges\<close> is still 1, node 0 is still in \<open>self.nodes\<close> and still holds its edge.
\<close>

theorem round2_only_records:
  "remove_nodes_with_leaf_child example_graph = Inr (example_graph\<lparr>nodes := [0, 2]\<rparr>) \<and>
   num_edges (example_graph\<lparr>nodes := [0, 2]\<rparr>) = 1 \<and>
   to_drop (remove_nodes_in_cycles (example_graph\<lparr>nodes := [0, 2]\<rparr>)) = [0] \<and>
   num_edges (remove_nodes_in_cycles (example_graph\<lparr>nodes := [0, 2]\<rparr>)) = 1 \<and>
   nodes (remove_nodes_in_cycles (example_graph\<lparr>nodes := [0, 2]\<rparr>)) = [0] \<and>
   edge (heap (remove_nodes_in_cycles (example_graph\<lparr>nodes := [0, 2]\<rparr>)) 0) = [(1, 19 / 20)]"
  unfolding example_round2
  by (simp add: remove_nodes_with_leaf_child_def example_round1) (simp add: example_graph_def)

section \<open>The prune loop\<close>

text \<open>\<open>prune\<close> returns normally only when there was no edge, and then changes nothing.\<close>

lemma prune_returns_unchanged:
  assumes ret: "prune s = Some r"
  shows "\<forall>s'. r = Inr s' \<longrightarrow> num_edges s = 0 \<and> s' = s"
proof (rule prune.raw_induct
    [where P = "\<lambda>s r. \<forall>s'. r = Inr s' \<longrightarrow> num_edges s = 0 \<and> s' = s", OF _ ret])
  fix f s r
  assume IH: "\<And>s r. f s = Some r \<Longrightarrow> \<forall>s'. r = Inr s' \<longrightarrow> num_edges s = 0 \<and> s' = s"
    and eq: "(if num_edges s \<noteq> 0 then
        (case remove_nodes_with_leaf_child s of
           Inl e \<Rightarrow> Some (Inl e)
         | Inr s1 \<Rightarrow> f (remove_nodes_in_cycles s1))
      else Some (Inr s)) = Some r"
  show "\<forall>s'. r = Inr s' \<longrightarrow> num_edges s = 0 \<and> s' = s"
  proof (cases "num_edges s = 0")
    case True
    with eq show ?thesis by auto
  next
    case False
    show ?thesis
    proof (cases "remove_nodes_with_leaf_child s")
      case (Inl e)
      with False eq show ?thesis by auto
    next
      case (Inr s1)
      with False eq have fr: "f (remove_nodes_in_cycles s1) = Some r" by simp
      from remove_nodes_with_leaf_child_frame [OF Inr]
      have "num_edges (remove_nodes_in_cycles s1) \<noteq> 0"
        using False by (simp add: remove_nodes_in_cycles_frame)
      with IH [OF fr] show ?thesis by auto
    qed
  qed
qed

text \<open>
  On a store in which every neighbour has an empty dictionary, as the constructor leaves
  it, no round raises and no round changes \<open>num_edges\<close>: with an edge, \<open>prune\<close> does
  not return.
\<close>

lemma prune_does_not_return:
  assumes "leafless (heap s)" and "num_edges s \<noteq> 0"
  shows "prune s = None"
proof (rule ccontr)
  assume "prune s \<noteq> None"
  then obtain r where ret: "prune s = Some r" by auto
  have "\<not> (leafless (heap s) \<and> num_edges s \<noteq> 0)"
  proof (rule prune.raw_induct
      [where P = "\<lambda>s r. \<not> (leafless (heap s) \<and> num_edges s \<noteq> 0)", OF _ ret])
    fix f s r
    assume IH: "\<And>s r. f s = Some r \<Longrightarrow> \<not> (leafless (heap s) \<and> num_edges s \<noteq> 0)"
      and eq: "(if num_edges s \<noteq> 0 then
          (case remove_nodes_with_leaf_child s of
             Inl e \<Rightarrow> Some (Inl e)
           | Inr s1 \<Rightarrow> f (remove_nodes_in_cycles s1))
        else Some (Inr s)) = Some r"
    show "\<not> (leafless (heap s) \<and> num_edges s \<noteq> 0)"
    proof
      assume a: "leafless (heap s) \<and> num_edges s \<noteq> 0"
      then obtain s1 where r1: "remove_nodes_with_leaf_child s = Inr s1"
        using remove_nodes_with_leaf_child_returns by blast
      from remove_nodes_with_leaf_child_frame [OF r1]
      have same: "heap s1 = heap s" "num_edges s1 = num_edges s" by simp_all
      from eq a r1 have fr: "f (remove_nodes_in_cycles s1) = Some r" by simp
      from a same have "leafless (heap (remove_nodes_in_cycles s1))"
        by (simp add: remove_nodes_in_cycles_leafless)
      moreover from a same have "num_edges (remove_nodes_in_cycles s1) \<noteq> 0"
        by (simp add: remove_nodes_in_cycles_frame)
      ultimately show False using IH [OF fr] by blast
    qed
  qed
  with assms show False by simp
qed


lemma prune_built_graph:
  assumes "CorrelationGraph_init df threshold = Inr g"
  shows "prune g = (if num_edges g = 0 then Some (Inr g) else None)"
proof (cases "num_edges g = 0")
  case True
  then show ?thesis by (simp add: prune.simps)
next
  case False
  with built_graph_leafless [OF assms] show ?thesis
    by (simp add: prune_does_not_return)
qed

lemma uncorrelated_prune: "prune uncorrelated_graph = Some (Inr uncorrelated_graph)"
  by (simp add: prune.simps uncorrelated_graph_def)

text \<open>
  C8. In the prune loop round 2 runs only after a round 1 that made no progress in
  \<open>num_edges\<close>. The loop calls round 2 after every round 1 that returns; a round 1 that
  returns has left \<open>num_edges\<close> as it was, and a round 1 that raises ends \<open>prune\<close> with
  that exception. So in each iteration either \<open>prune\<close> stops with the exception of
  round 1, or round 1 returned with the same \<open>num_edges\<close> and round 2 runs next.
\<close>

theorem round2_only_after_idle_round1:
  assumes "num_edges s \<noteq> 0"
  shows "(\<exists>e. remove_nodes_with_leaf_child s = Inl e \<and> prune s = Some (Inl e)) \<or>
         (\<exists>s1. remove_nodes_with_leaf_child s = Inr s1 \<and> num_edges s1 = num_edges s \<and>
               prune s = prune (remove_nodes_in_cycles s1))"
proof (cases "remove_nodes_with_leaf_child s")
  case (Inl e)
  with assms have "prune s = Some (Inl e)" by (simp add: prune.simps)
  with Inl show ?thesis by simp
next
  case (Inr s1)
  with assms have "prune s = prune (remove_nodes_in_cycles s1)"
    by (subst prune.simps) simp
  moreover from remove_nodes_with_leaf_child_frame [OF Inr] have "num_edges s1 = num_edges s"
    by simp
  ultimately show ?thesis using Inr by simp
qed

theorem round2_only_after_idle_round1_witness:
  "num_edges example_graph \<noteq> 0 \<and>
   remove_nodes_with_leaf_child example_graph = Inr (example_graph\<lparr>nodes := [0, 2]\<rparr>) \<and>
   prune example_graph = prune (remove_nodes_in_cycles (example_graph\<lparr>nodes := [0, 2]\<rparr>)) \<and>
   num_edges mutual_pair_graph \<noteq> 0 \<and>
   remove_nodes_with_leaf_child mutual_pair_graph = Inl RuntimeError_dict_changed_size \<and>
   prune mutual_pair_graph = Some (Inl RuntimeError_dict_changed_size)"
proof -
  have a: "num_edges example_graph \<noteq> 0" by (simp add: example_graph_def)
  have b: "num_edges mutual_pair_graph \<noteq> 0" by (simp add: mutual_pair_graph_def)
  have r: "remove_nodes_with_leaf_child example_graph = Inr (example_graph\<lparr>nodes := [0, 2]\<rparr>)"
    by (simp add: remove_nodes_with_leaf_child_def example_round1)
  from round2_only_after_idle_round1 [OF a] r
  have "prune example_graph = prune (remove_nodes_in_cycles (example_graph\<lparr>nodes := [0, 2]\<rparr>))"
    by auto
  moreover from round2_only_after_idle_round1 [OF b] mutual_pair_round1
  have "prune mutual_pair_graph = Some (Inl RuntimeError_dict_changed_size)"
    by auto
  ultimately show ?thesis using a b r mutual_pair_round1 by simp
qed

text \<open>
  C1. For every graph built from a square matrix \<open>prune\<close> terminates, with
  \<open>num_edges = 0\<close> and no two active nodes adjacent. On the graph built from
  \<open>example_matrix\<close>, which has one edge, \<open>prune\<close> does not return: no round changes
  \<open>num_edges\<close> (\<open>prune_built_graph\<close> has the general statement).
\<close>

theorem prune_example_does_not_return:
  "CorrelationGraph_init example_matrix (9 / 10) = Inr example_graph \<and>
   num_edges example_graph = 1 \<and> prune example_graph = None"
proof -
  have "num_edges example_graph = 1" by (simp add: example_graph_def)
  moreover from this have "prune example_graph = None"
    by (simp add: prune_built_graph [OF example_graph_built])
  ultimately show ?thesis using example_graph_built by simp
qed

text \<open>
  The bounded run follows \<open>prune\<close>: an exception within \<open>k\<close> passes is the result of
  \<open>prune\<close>, and otherwise \<open>prune\<close> goes on from the memory reached.
\<close>

lemma prune_steps_prune:
  "(case prune_steps k s of Inl e \<Rightarrow> prune s = Some (Inl e) | Inr s' \<Rightarrow> prune s = prune s')"
proof (induction k arbitrary: s)
  case 0
  show ?case by simp
next
  case (Suc k)
  show ?case
  proof (cases "num_edges s = 0")
    case True
    then show ?thesis by simp
  next
    case ne: False
    show ?thesis
    proof (cases "remove_nodes_with_leaf_child s")
      case (Inl e)
      with ne have "prune s = Some (Inl e)" by (simp add: prune.simps)
      with ne Inl show ?thesis by simp
    next
      case (Inr s1)
      with ne have "prune s = prune (remove_nodes_in_cycles s1)"
        by (subst prune.simps) simp
      with ne Inr Suc.IH [of "remove_nodes_in_cycles s1"] show ?thesis
        by (simp split: sum.splits)
    qed
  qed
qed

lemma example_two_passes:
  "prune_steps 2 example_graph =
     Inr (example_graph\<lparr>heap := (heap example_graph)
                               (3 := \<lparr>node_value = - 1, edge = []\<rparr>,
                                4 := \<lparr>node_value = - 1, edge = []\<rparr>),
                         next_ref := 5, nodes := [0], to_drop := [0, 0]\<rparr>)"
  by (simp add: numeral_2_eq_2 remove_nodes_with_leaf_child_def r1_loop.simps
      remove_nodes_in_cycles_def Node_init_def r2_loop.simps example_graph_def
      has_leaf_child_def)

lemma zero_one_pass:
  "prune_steps 1 zero_graph =
     Inr (zero_graph\<lparr>heap := (heap zero_graph)(3 := \<lparr>node_value = - 1, edge = []\<rparr>),
                      next_ref := 4, nodes := [0], to_drop := [- 1]\<rparr>)"
  by (simp add: remove_nodes_with_leaf_child_def r1_loop.simps
      remove_nodes_in_cycles_def Node_init_def r2_loop.simps zero_graph_def
      has_leaf_child_def)

text \<open>
  C6. After a completed \<open>prune\<close>, \<open>to_drop\<close> has no duplicates and each of its values
  is the value of a node present at construction time. On a graph with an edge the code
  never completes \<open>prune\<close>, and what it writes to \<open>to_drop\<close> on the way breaks both
  parts. For \<open>example_matrix\<close> round 2 records node 0 in every pass, since it never
  removes it: after two passes \<open>to_drop\<close> is \<open>[0, 0]\<close>. For \<open>zero_matrix\<close> and
  threshold 0 no sum of weights exceeds the initial \<open>max_weight = 0.0\<close>, so round 2
  records the value \<open>-1\<close> of its place holder, which is the value of no node of the
  graph.
\<close>

theorem drop_list_repeats_and_records_place_holder:
  "CorrelationGraph_init example_matrix (9 / 10) = Inr example_graph \<and>
   prune example_graph = None \<and>
   map_sum id to_drop (prune_steps 2 example_graph) = Inr [0, 0] \<and>
   \<not> distinct [0, 0 :: int] \<and>
   CorrelationGraph_init zero_matrix 0 = Inr zero_graph \<and>
   prune zero_graph = None \<and>
   map_sum id to_drop (prune_steps 1 zero_graph) = Inr [- 1] \<and>
   node_values zero_graph = [0, 1, 1]"
proof -
  have "num_edges example_graph \<noteq> 0" by (simp add: example_graph_def)
  then have a: "prune example_graph = None"
    by (simp add: prune_built_graph [OF example_graph_built])
  have "num_edges zero_graph \<noteq> 0" by (simp add: zero_graph_def)
  then have b: "prune zero_graph = None"
    by (simp add: prune_built_graph [OF zero_graph_built])
  have c: "node_values zero_graph = [0, 1, 1]"
    by (simp add: node_values_def zero_graph_def)
  show ?thesis
    unfolding example_two_passes zero_one_pass
    using a b c example_graph_built zero_graph_built by simp
qed

text \<open>
  C10. Neither the constructor nor \<open>prune\<close> modifies the caller's matrix: it is the
  same after construction, after each round, and after a completed \<open>prune\<close>.
\<close>

theorem corr_matrix_unchanged:
  "(CorrelationGraph_init df threshold = Inr g \<longrightarrow> corr_matrix g = df) \<and>
   (remove_nodes_with_leaf_child s = Inr s1 \<longrightarrow> corr_matrix s1 = corr_matrix s) \<and>
   corr_matrix (remove_nodes_in_cycles s) = corr_matrix s \<and>
   (prune s = Some (Inr s') \<longrightarrow> corr_matrix s' = corr_matrix s)"
proof (intro conjI impI)
  assume "CorrelationGraph_init df threshold = Inr g"
  then show "corr_matrix g = df" by (rule built_graph_corr_matrix)
next
  assume "remove_nodes_with_leaf_child s = Inr s1"
  from remove_nodes_with_leaf_child_frame [OF this] show "corr_matrix s1 = corr_matrix s"
    by simp
next
  show "corr_matrix (remove_nodes_in_cycles s) = corr_matrix s"
    by (simp add: remove_nodes_in_cycles_frame)
next
  assume "prune s = Some (Inr s')"
  from prune_returns_unchanged [OF this] show "corr_matrix s' = corr_matrix s" by simp
qed

theorem corr_matrix_unchanged_witness:
  "CorrelationGraph_init uncorrelated_matrix (9 / 10) = Inr uncorrelated_graph \<and>
   corr_matrix uncorrelated_graph = uncorrelated_matrix \<and>
   remove_nodes_with_leaf_child uncorrelated_graph = Inr (uncorrelated_graph\<lparr>nodes := [1]\<rparr>) \<and>
   corr_matrix (uncorrelated_graph\<lparr>nodes := [1]\<rparr>) = corr_matrix uncorrelated_graph \<and>
   corr_matrix (remove_nodes_in_cycles uncorrelated_graph) = corr_matrix uncorrelated_graph \<and>
   prune uncorrelated_graph = Some (Inr uncorrelated_graph)"
  using corr_matrix_unchanged [of uncorrelated_matrix "9 / 10" uncorrelated_graph
      uncorrelated_graph "uncorrelated_graph\<lparr>nodes := [1]\<rparr>" uncorrelated_graph]
    uncorrelated_graph_built uncorrelated_round1 uncorrelated_prune by blast


end
